theory Spec2Isabelle
  imports Main "HOL-Library.Word"
begin

section \<open>Python values used by \<open>communication.py\<close>\<close>

text \<open>
  A Python \<open>str\<close> is a sequence of Unicode code points, a \<open>bytes\<close> object a sequence
  of octets. The two are kept apart, because the session encodes commands before writing
  them and decodes what it reads. Code points of a \<open>str\<close> lie below \<open>0x110000\<close>.
\<close>

type_synonym codepoint = nat
type_synonym pystr = "codepoint list"
type_synonym byte = "8 word"
type_synonym bytes = "byte list"

text \<open>A source literal such as \<open>':ACK'\<close>, all of whose characters are ASCII.\<close>

definition lit :: "string \<Rightarrow> pystr" where
  "lit s = map of_char s"

text \<open>A \<open>bytes\<close> literal such as \<open>b':ACK\n'\<close>.\<close>

definition blit :: "string \<Rightarrow> bytes" where
  "blit s = map (\<lambda>c. of_nat (of_char c)) s"

text \<open>\<open>str.startswith\<close> and \<open>bytes.startswith\<close>.\<close>

definition startswith :: "'a list \<Rightarrow> 'a list \<Rightarrow> bool" where
  "startswith s p = (take (length p) s = p)"

text \<open>
  \<open>str.strip()\<close> without argument removes leading and trailing white space, which for
  \<open>str\<close> is every code point for which \<open>str.isspace\<close> holds.
\<close>

definition is_space :: "codepoint \<Rightarrow> bool" where
  "is_space cp =
     ((0x09 \<le> cp \<and> cp \<le> 0x0D) \<or> (0x1C \<le> cp \<and> cp \<le> 0x20) \<or> cp = 0x85 \<or> cp = 0xA0
      \<or> cp = 0x1680 \<or> (0x2000 \<le> cp \<and> cp \<le> 0x200A) \<or> cp = 0x2028 \<or> cp = 0x2029
      \<or> cp = 0x202F \<or> cp = 0x205F \<or> cp = 0x3000)"

definition strip :: "pystr \<Rightarrow> pystr" where
  "strip s = rev (dropWhile is_space (rev (dropWhile is_space s)))"

text \<open>Decimal and hexadecimal rendering, as \<open>%s\<close>, \<open>%d\<close> and \<open>%02x\<close> produce them.\<close>

function dec :: "nat \<Rightarrow> pystr" where
  "dec n = (if n < 10 then [48 + n] else dec (n div 10) @ [48 + n mod 10])"
  by pat_completeness auto
termination
  by (relation "measure id") auto

definition hexdigit :: "nat \<Rightarrow> codepoint" where
  "hexdigit d = (if d < 10 then 48 + d else 87 + d)"

definition hex2 :: "nat \<Rightarrow> pystr" where
  "hex2 n = [hexdigit ((n div 16) mod 16), hexdigit (n mod 16)]"

definition hex4 :: "nat \<Rightarrow> pystr" where
  "hex4 n = hex2 (n div 256) @ hex2 (n mod 256)"


subsection \<open>Exceptions\<close>

text \<open>
  The exception classes that the operations of the module can meet, all of them
  subclasses of \<open>Exception\<close>: \<open>serial.SerialException\<close> derives from \<open>OSError\<close>
  (of which \<open>IOError\<close> and \<open>EnvironmentError\<close> are aliases) and has the subclasses
  \<open>SerialTimeoutException\<close> and \<open>PortNotOpenError\<close>; \<open>UnicodeDecodeError\<close> and
  \<open>UnicodeEncodeError\<close> derive from \<open>ValueError\<close>. \<open>Other_Exception\<close> stands for any
  further subclass of \<open>Exception\<close> that is none of these. An exception value carries its
  class and the text that \<open>str(e)\<close>, and so \<open>{e}\<close> in an f-string, gives.
\<close>

datatype exn_class =
    SerialException | SerialTimeoutException | PortNotOpenError
  | OSError | TypeError | ValueError | UnicodeDecodeError | UnicodeEncodeError
  | Other_Exception

datatype exn = Exn (cls: exn_class) (msg: pystr)

text \<open>What \<open>except serial.SerialException\<close> catches.\<close>

definition is_SerialException :: "exn \<Rightarrow> bool" where
  "is_SerialException e =
     (cls e = SerialException \<or> cls e = SerialTimeoutException \<or> cls e = PortNotOpenError)"

text \<open>What \<open>except (OSError, serial.SerialException)\<close> catches.\<close>

definition is_OSError :: "exn \<Rightarrow> bool" where
  "is_OSError e = (cls e = OSError \<or> is_SerialException e)"

text \<open>What \<open>except TypeError\<close> catches.\<close>

definition is_TypeError :: "exn \<Rightarrow> bool" where
  "is_TypeError e = (cls e = TypeError)"


subsection \<open>The UTF-8 codec in strict mode\<close>

text \<open>
  \<open>str.encode('utf-8')\<close>: one to four octets for each code point; a surrogate
  (\<open>U+D800\<close> to \<open>U+DFFF\<close>) raises \<open>UnicodeEncodeError\<close>, whose text names the run of
  surrogates that starts at the offending position.
\<close>

definition is_surrogate :: "codepoint \<Rightarrow> bool" where
  "is_surrogate cp = (0xD800 \<le> cp \<and> cp \<le> 0xDFFF)"

definition encode_cp :: "codepoint \<Rightarrow> bytes" where
  "encode_cp cp =
     (if cp < 0x80 then [of_nat cp]
      else if cp < 0x800 then [of_nat (0xC0 + cp div 64), of_nat (0x80 + cp mod 64)]
      else if cp < 0x10000 then
        [of_nat (0xE0 + cp div 4096), of_nat (0x80 + (cp div 64) mod 64),
         of_nat (0x80 + cp mod 64)]
      else
        [of_nat (0xF0 + cp div 262144), of_nat (0x80 + (cp div 4096) mod 64),
         of_nat (0x80 + (cp div 64) mod 64), of_nat (0x80 + cp mod 64)])"

definition encode_error :: "codepoint \<Rightarrow> nat \<Rightarrow> nat \<Rightarrow> exn" where
  "encode_error cp start stop =
     Exn UnicodeEncodeError
       (if stop = start + 1
        then [39] @ lit ''utf-8'' @ [39] @ lit '' codec can'' @ [39] @ lit ''t encode character ''
             @ [39, 92] @ lit ''u'' @ hex4 cp @ [39] @ lit '' in position '' @ dec start
             @ lit '': surrogates not allowed''
        else [39] @ lit ''utf-8'' @ [39] @ lit '' codec can'' @ [39]
             @ lit ''t encode characters in position '' @ dec start @ lit ''-'' @ dec (stop - 1)
             @ lit '': surrogates not allowed'')"

fun utf8_encode_from :: "nat \<Rightarrow> pystr \<Rightarrow> exn + bytes" where
  "utf8_encode_from pos [] = Inr []"
| "utf8_encode_from pos (cp # rest) =
     (if is_surrogate cp
      then Inl (encode_error cp pos (pos + 1 + length (takeWhile is_surrogate rest)))
      else (case utf8_encode_from (Suc pos) rest of
              Inl e \<Rightarrow> Inl e
            | Inr bs \<Rightarrow> Inr (encode_cp cp @ bs)))"

definition utf8_encode :: "pystr \<Rightarrow> exn + bytes" where
  "utf8_encode s = utf8_encode_from 0 s"

text \<open>
  \<open>bytes.decode('utf-8')\<close>: the shortest-form sequences only, no surrogates, nothing
  above \<open>U+10FFFF\<close>; the first malformed sequence raises \<open>UnicodeDecodeError\<close>. The
  arguments of \<open>decode_error\<close> are the first octet of the sequence, its position, the
  position after the last octet the error covers, and the reason.
\<close>

definition decode_error :: "nat \<Rightarrow> nat \<Rightarrow> nat \<Rightarrow> string \<Rightarrow> exn" where
  "decode_error b start stop reason =
     Exn UnicodeDecodeError
       (if stop = start + 1
        then [39] @ lit ''utf-8'' @ [39] @ lit '' codec can'' @ [39] @ lit ''t decode byte 0x''
             @ hex2 b @ lit '' in position '' @ dec start @ lit '': '' @ lit reason
        else [39] @ lit ''utf-8'' @ [39] @ lit '' codec can'' @ [39]
             @ lit ''t decode bytes in position '' @ dec start @ lit ''-'' @ dec (stop - 1)
             @ lit '': '' @ lit reason)"

definition is_cont :: "nat \<Rightarrow> bool" where
  "is_cont b = (0x80 \<le> b \<and> b < 0xC0)"

definition push :: "codepoint \<Rightarrow> exn + pystr \<Rightarrow> exn + pystr" where
  "push cp r = (case r of Inl e \<Rightarrow> Inl e | Inr s \<Rightarrow> Inr (cp # s))"

fun utf8_decode_from :: "nat \<Rightarrow> nat list \<Rightarrow> exn + pystr" where
  "utf8_decode_from pos [] = Inr []"
| "utf8_decode_from pos (b1 # rest) =
     (if b1 < 0x80 then push b1 (utf8_decode_from (pos + 1) rest)
      else if b1 < 0xC2 then Inl (decode_error b1 pos (pos + 1) ''invalid start byte'')
      else if b1 < 0xE0 then
        (case rest of
           [] \<Rightarrow> Inl (decode_error b1 pos (pos + 1) ''unexpected end of data'')
         | b2 # r2 \<Rightarrow>
             if \<not> is_cont b2
             then Inl (decode_error b1 pos (pos + 1) ''invalid continuation byte'')
             else push ((b1 - 0xC0) * 64 + (b2 - 0x80)) (utf8_decode_from (pos + 2) r2))
      else if b1 < 0xF0 then
        (case rest of
           [] \<Rightarrow> Inl (decode_error b1 pos (pos + 1) ''unexpected end of data'')
         | b2 # r2 \<Rightarrow>
             if \<not> is_cont b2 \<or> (b1 = 0xE0 \<and> b2 < 0xA0) \<or> (b1 = 0xED \<and> 0xA0 \<le> b2)
             then Inl (decode_error b1 pos (pos + 1) ''invalid continuation byte'')
             else
               (case r2 of
                  [] \<Rightarrow> Inl (decode_error b1 pos (pos + 2) ''unexpected end of data'')
                | b3 # r3 \<Rightarrow>
                    if \<not> is_cont b3
                    then Inl (decode_error b1 pos (pos + 2) ''invalid continuation byte'')
                    else push ((b1 - 0xE0) * 4096 + (b2 - 0x80) * 64 + (b3 - 0x80))
                           (utf8_decode_from (pos + 3) r3)))
      else if b1 < 0xF5 then
        (case rest of
           [] \<Rightarrow> Inl (decode_error b1 pos (pos + 1) ''unexpected end of data'')
         | b2 # r2 \<Rightarrow>
             if \<not> is_cont b2 \<or> (b1 = 0xF0 \<and> b2 < 0x90) \<or> (b1 = 0xF4 \<and> 0x90 \<le> b2)
             then Inl (decode_error b1 pos (pos + 1) ''invalid continuation byte'')
             else
               (case r2 of
                  [] \<Rightarrow> Inl (decode_error b1 pos (pos + 2) ''unexpected end of data'')
                | b3 # r3 \<Rightarrow>
                    if \<not> is_cont b3
                    then Inl (decode_error b1 pos (pos + 2) ''invalid continuation byte'')
                    else
                      (case r3 of
                         [] \<Rightarrow> Inl (decode_error b1 pos (pos + 3) ''unexpected end of data'')
                       | b4 # r4 \<Rightarrow>
                           if \<not> is_cont b4
                           then Inl (decode_error b1 pos (pos + 3) ''invalid continuation byte'')
                           else push ((b1 - 0xF0) * 262144 + (b2 - 0x80) * 4096
                                      + (b3 - 0x80) * 64 + (b4 - 0x80))
                                  (utf8_decode_from (pos + 4) r4))))
      else Inl (decode_error b1 pos (pos + 1) ''invalid start byte''))"

definition utf8_decode :: "bytes \<Rightarrow> exn + pystr" where
  "utf8_decode bs = utf8_decode_from 0 (map unat bs)"


section \<open>The port enumerator: \<open>serial_ports\<close>\<close>

text \<open>
  The function reads \<open>sys.platform\<close>, asks \<open>glob.glob\<close> for the device paths and
  probes every candidate with \<open>serial.Serial(port)\<close> followed by \<open>s.close()\<close>. These
  three are the host's answers, and the model takes them as a record. A probe opens and
  closes, or the open raises, or the open succeeds and the close raises. The candidates
  of one enumeration are distinct names, so the answer to a probe is a function of the
  name.
\<close>

datatype probe_outcome = Probe_ok | Probe_open_raises exn | Probe_close_raises exn

record host =
  platform :: pystr
  glob :: "pystr \<Rightarrow> pystr list"
  probe :: "pystr \<Rightarrow> probe_outcome"

text \<open>
  The \<open>if\<close>/\<open>elif\<close> chain on \<open>sys.platform\<close>. \<open>EnvironmentError\<close> is Python 3's
  alias of \<open>OSError\<close>.
\<close>

definition candidates :: "host \<Rightarrow> exn + pystr list" where
  "candidates h =
     (if startswith (platform h) (lit ''win'')
      then Inr (map (\<lambda>i. lit ''COM'' @ dec (i + 1)) [0..<256])
      else if startswith (platform h) (lit ''linux'') \<or> startswith (platform h) (lit ''cygwin'')
      then Inr (glob h (lit ''/dev/tty[A-Za-z]*''))
      else if startswith (platform h) (lit ''darwin'')
      then Inr (glob h (lit ''/dev/tty.*''))
      else Inl (Exn OSError (lit ''Unsupported platform'')))"

text \<open>
  The \<open>for\<close> loop with its accumulator \<open>result\<close>. The handler catches
  \<open>(OSError, serial.SerialException)\<close>; an exception of another class leaves the
  function.
\<close>

fun probe_ports :: "(pystr \<Rightarrow> probe_outcome) \<Rightarrow> pystr list \<Rightarrow> pystr list \<Rightarrow> exn + pystr list" where
  "probe_ports pr [] result = Inr result"
| "probe_ports pr (port # ports) result =
     (case pr port of
        Probe_ok \<Rightarrow> probe_ports pr ports (result @ [port])
      | Probe_open_raises e \<Rightarrow> if is_OSError e then probe_ports pr ports result else Inl e
      | Probe_close_raises e \<Rightarrow> if is_OSError e then probe_ports pr ports result else Inl e)"

definition serial_ports :: "host \<Rightarrow> exn + pystr list" where
  "serial_ports h =
     (case candidates h of
        Inl e \<Rightarrow> Inl e
      | Inr ports \<Rightarrow> probe_ports (probe h) ports [])"


section \<open>The device session: \<open>SerialCommunicator\<close>\<close>

subsection \<open>State, effects and results\<close>

text \<open>
  The \<open>serial.Serial\<close> object as far as the class uses it, and the four attributes of
  a \<open>SerialCommunicator\<close> (the source writes \<open>_port_name\<close>, \<open>_baudrate\<close> and
  \<open>_is_running\<close>).
\<close>

record serial_handle =
  port :: pystr
  baud :: int
  timeout :: int
  is_open :: bool

record communicator =
  serial_port :: "serial_handle option"
  port_name :: pystr
  baudrate :: int
  is_running :: bool

text \<open>
  The three Qt signals of the class, and what an operation does that can be observed
  from outside, in the order in which it does it: it emits a signal, it calls
  \<open>serial_port.write(data)\<close>, it prints a line.
\<close>

datatype signal = Response_received pystr | Error_received pystr | Port_closed

datatype effect = Emit signal | Port_write bytes | Print pystr

text \<open>
  An operation returns, or an exception leaves it, or (the read loop only) it is still
  running when the recorded behaviour of its environment ends. Beside this status a
  result holds the object's state and the effects so far.
\<close>

datatype status = Returned | Raised exn | Blocked

type_synonym result = "status \<times> communicator \<times> effect list"

definition status_of :: "result \<Rightarrow> status" where
  "status_of r = fst r"

definition state_of :: "result \<Rightarrow> communicator" where
  "state_of r = fst (snd r)"

definition effects_of :: "result \<Rightarrow> effect list" where
  "effects_of r = snd (snd r)"

fun signals :: "effect list \<Rightarrow> signal list" where
  "signals [] = []"
| "signals (Emit sg # effs) = sg # signals effs"
| "signals (_ # effs) = signals effs"

fun writes :: "effect list \<Rightarrow> bytes list" where
  "writes [] = []"
| "writes (Port_write data # effs) = data # writes effs"
| "writes (_ # effs) = writes effs"

definition prepend :: "effect list \<Rightarrow> result \<Rightarrow> result" where
  "prepend effs r = (status_of r, state_of r, effs @ effects_of r)"

text \<open>\<open>__init__\<close>.\<close>

definition init :: "pystr \<Rightarrow> int \<Rightarrow> communicator" where
  "init p b = \<lparr>serial_port = None, port_name = p, baudrate = b, is_running = False\<rparr>"

text \<open>
  The test \<open>self.serial_port and self.serial_port.is_open\<close>: a \<open>Serial\<close> object is
  always truthy, so the first conjunct asks whether the attribute is \<open>None\<close>.
\<close>

definition port_open :: "communicator \<Rightarrow> bool" where
  "port_open s = (case serial_port s of None \<Rightarrow> False | Some p \<Rightarrow> is_open p)"


subsection \<open>\<open>send_command\<close>\<close>

text \<open>
  The write either succeeds or raises. The handler of the \<open>try\<close> catches
  \<open>serial.SerialException\<close> only; the encoding of the command is inside the \<open>try\<close>
  as well.
\<close>

datatype write_outcome = Write_ok | Write_raises exn

definition send_handler :: "communicator \<Rightarrow> effect list \<Rightarrow> exn \<Rightarrow> result" where
  "send_handler s effs e =
     (if is_SerialException e
      then (Returned, s, effs @ [Emit (Error_received (lit ''Erro ao enviar comando: '' @ msg e))])
      else (Raised e, s, effs))"

definition send_command :: "communicator \<Rightarrow> pystr \<Rightarrow> write_outcome \<Rightarrow> result" where
  "send_command s command w =
     (if port_open s then
        (let full_command = lit '':'' @ command @ [10] in
         case utf8_encode full_command of
           Inl e \<Rightarrow> send_handler s [] e
         | Inr data \<Rightarrow>
             (case w of
                Write_raises e \<Rightarrow> send_handler s [Port_write data] e
              | Write_ok \<Rightarrow>
                  (Returned, s,
                   [Port_write data, Print (lit ''Enviado: '' @ strip full_command)])))
      else (Returned, s, []))"


subsection \<open>\<open>disconnect\<close>\<close>

definition close :: "serial_handle \<Rightarrow> serial_handle" where
  "close p = p\<lparr>is_open := False\<rparr>"

definition disconnect :: "communicator \<Rightarrow> result" where
  "disconnect s =
     (let s1 = s\<lparr>is_running := False\<rparr> in
      if port_open s1
      then (Returned, s1\<lparr>serial_port := map_option close (serial_port s1)\<rparr>, [])
      else (Returned, s1, []))"


subsection \<open>The read loop: \<open>run\<close>\<close>

text \<open>
  The loop runs on the worker thread while the caller's thread may call \<open>disconnect\<close>.
  What the loop meets, in order, is a list of events:
  \<^item> \<open>Readline r\<close>: the loop condition held and \<open>readline()\<close> ended with \<open>r\<close>, bytes
    returned (empty on a timeout) or an exception raised;
  \<^item> \<open>Caller_disconnects\<close>: the caller ran \<open>disconnect()\<close> before the loop condition was
    evaluated;
  \<^item> \<open>Caller_disconnects_in_read r\<close>: the loop condition held, the caller ran
    \<open>disconnect()\<close> while \<open>readline()\<close> was under way, and \<open>readline()\<close> then ended
    with \<open>r\<close>. The comment in the handler expects \<open>TypeError\<close> here; the model leaves
    the outcome open, since it is pySerial that decides it.
  When the list ends while the loop condition still holds, the loop is still reading:
  the status is \<open>Blocked\<close>.
\<close>

datatype read_outcome = Read_returns bytes | Read_raises exn

datatype loop_event =
  Readline read_outcome | Caller_disconnects | Caller_disconnects_in_read read_outcome

definition loop_cond :: "communicator \<Rightarrow> bool" where
  "loop_cond s = (is_running s \<and> port_open s)"

text \<open>The statement \<open>line = self.serial_port.readline().decode('utf-8').strip()\<close>.\<close>

definition read_line :: "read_outcome \<Rightarrow> exn + pystr" where
  "read_line r =
     (case r of
        Read_raises e \<Rightarrow> Inl e
      | Read_returns data \<Rightarrow>
          (case utf8_decode data of Inl e \<Rightarrow> Inl e | Inr text \<Rightarrow> Inr (strip text)))"

text \<open>The block under \<open>if line:\<close>.\<close>

definition handle_line :: "pystr \<Rightarrow> effect list" where
  "handle_line line =
     (if line \<noteq> [] then
        Print (lit ''Recebido: '' @ line) #
        (if startswith line (lit '':ACK'') then [Emit (Response_received line)]
         else if startswith line (lit '':NACK'') then [Emit (Error_received line)]
         else [])
      else [])"

text \<open>The two handlers of the \<open>try\<close>; both leave the loop.\<close>

definition read_handler :: "exn \<Rightarrow> effect list" where
  "read_handler e =
     (if is_TypeError e then []
      else [Emit (Error_received (lit ''Erro de leitura: '' @ msg e))])"

fun run :: "communicator \<Rightarrow> loop_event list \<Rightarrow> result" where
  "run s [] =
     (if loop_cond s then (Blocked, s, []) else (Returned, s, [Emit Port_closed]))"
| "run s (ev # rest) =
     (if \<not> loop_cond s then (Returned, s, [Emit Port_closed])
      else
        (case ev of
           Caller_disconnects \<Rightarrow> run (state_of (disconnect s)) rest
         | Caller_disconnects_in_read r \<Rightarrow>
             (case read_line r of
                Inl e \<Rightarrow> (Returned, state_of (disconnect s), read_handler e @ [Emit Port_closed])
              | Inr line \<Rightarrow> prepend (handle_line line) (run (state_of (disconnect s)) rest))
         | Readline r \<Rightarrow>
             (case read_line r of
                Inl e \<Rightarrow> (Returned, s, read_handler e @ [Emit Port_closed])
              | Inr line \<Rightarrow> prepend (handle_line line) (run s rest))))"


subsection \<open>\<open>connect\<close>\<close>

text \<open>
  \<open>serial.Serial(self._port_name, self._baudrate, timeout=1)\<close> gives an open port or
  raises. The call of \<open>run\<close> is inside the \<open>try\<close>, whose handler catches
  \<open>serial.SerialException\<close> only.
\<close>

datatype open_outcome = Opened | Open_raises exn

definition connect_handler :: "communicator \<Rightarrow> effect list \<Rightarrow> exn \<Rightarrow> result" where
  "connect_handler s effs e =
     (if is_SerialException e
      then (Returned, s,
            effs @ [Emit (Error_received
                      (lit ''Falha ao abrir porta '' @ port_name s @ lit '': '' @ msg e))])
      else (Raised e, s, effs))"

text \<open>The two assignments that follow a successful open.\<close>

definition opened :: "communicator \<Rightarrow> communicator" where
  "opened s =
     s\<lparr>serial_port :=
         Some \<lparr>port = port_name s, baud = baudrate s, timeout = 1, is_open = True\<rparr>,
       is_running := True\<rparr>"

definition connect :: "communicator \<Rightarrow> open_outcome \<Rightarrow> loop_event list \<Rightarrow> result" where
  "connect s oo env =
     (case oo of
        Open_raises e \<Rightarrow> connect_handler s [] e
      | Opened \<Rightarrow>
          (let r = run (opened s) env
           in case status_of r of
                Raised e \<Rightarrow> connect_handler (state_of r) (effects_of r) e
              | _ \<Rightarrow> r))"


section \<open>Notions used in the statements\<close>

text \<open>The platforms that the \<open>if\<close>/\<open>elif\<close> chain of \<open>serial_ports\<close> knows.\<close>

definition recognized :: "pystr \<Rightarrow> bool" where
  "recognized p =
     (startswith p (lit ''win'') \<or> startswith p (lit ''linux'')
      \<or> startswith p (lit ''cygwin'') \<or> startswith p (lit ''darwin''))"

text \<open>The probes that let the enumeration go on: the handler catches what they raise.\<close>

definition probe_caught :: "probe_outcome \<Rightarrow> bool" where
  "probe_caught po =
     (case po of
        Probe_ok \<Rightarrow> True
      | Probe_open_raises e \<Rightarrow> is_OSError e
      | Probe_close_raises e \<Rightarrow> is_OSError e)"


text \<open>The signal object on which an emission arrives at a listener.\<close>

datatype channel = Response_channel | Error_channel | Closed_channel

fun channel_of :: "signal \<Rightarrow> channel" where
  "channel_of (Response_received _) = Response_channel"
| "channel_of (Error_received _) = Error_channel"
| "channel_of Port_closed = Closed_channel"

text \<open>
  Concrete inputs: a Linux host with two device paths, of which one can be opened; a
  communicator for \<open>COM3\<close> as \<open>__init__\<close> leaves it, the same after a successful open,
  and after a disconnect that followed; exceptions as pySerial raises them.
\<close>

definition host0 :: host where
  "host0 =
     \<lparr>platform = lit ''linux'',
      glob = (\<lambda>pat. if pat = lit ''/dev/tty[A-Za-z]*''
                    then [lit ''/dev/ttyS0'', lit ''/dev/ttyUSB0''] else []),
      probe = (\<lambda>p. if p = lit ''/dev/ttyUSB0'' then Probe_ok
                   else Probe_open_raises (Exn SerialException (lit ''could not open port'')))\<rparr>"

definition session0 :: communicator where
  "session0 = init (lit ''COM3'') 115200"

definition open0 :: communicator where
  "open0 = opened session0"

definition closed0 :: communicator where
  "closed0 =
     \<lparr>serial_port = Some \<lparr>port = lit ''COM3'', baud = 115200, timeout = 1, is_open = False\<rparr>,
      port_name = lit ''COM3'', baudrate = 115200, is_running = False\<rparr>"

definition no_port :: exn where
  "no_port = Exn SerialException (lit ''could not open port'')"


definition io_error :: exn where
  "io_error =
     Exn SerialException (lit ''device reports readiness to read but returned no data'')"


definition bad_baudrate :: exn where
  "bad_baudrate = Exn ValueError (lit ''Not a valid baudrate: -1'')"


section \<open>The read loop, line by line\<close>

lemma session0_simps:
  "serial_port session0 = None" "port_name session0 = lit ''COM3''"
  "baudrate session0 = 115200" "is_running session0 = False"
  by (simp_all add: session0_def init_def)

lemma not_port_open_session0: "\<not> port_open session0"
  by (simp add: port_open_def session0_simps)

lemma open0_eq:
  "open0 = \<lparr>serial_port = Some \<lparr>port = lit ''COM3'', baud = 115200, timeout = 1, is_open = True\<rparr>,
            port_name = lit ''COM3'', baudrate = 115200, is_running = True\<rparr>"
  by (simp add: open0_def opened_def session0_def init_def)

lemma port_open_opened: "port_open (opened s)"
  by (simp add: port_open_def opened_def)

lemma loop_cond_opened: "loop_cond (opened s)"
  by (simp add: loop_cond_def port_open_opened) (simp add: opened_def)

lemma port_open_open0: "port_open open0"
  by (simp add: open0_def port_open_opened)

lemma loop_cond_open0: "loop_cond open0"
  by (simp add: open0_def loop_cond_opened)

lemma startswith_nth: "startswith line p \<Longrightarrow> i < length p \<Longrightarrow> line ! i = p ! i"
  unfolding startswith_def by (metis nth_take)

lemma startswith_NACK_not_ACK:
  assumes "startswith line (lit '':NACK'')"
  shows "\<not> startswith line (lit '':ACK'')"
proof
  assume "startswith line (lit '':ACK'')"
  then have "line ! 1 = lit '':ACK'' ! 1"
    by (rule startswith_nth) (simp add: lit_def)
  moreover from assms have "line ! 1 = lit '':NACK'' ! 1"
    by (rule startswith_nth) (simp add: lit_def)
  ultimately show False by (simp add: lit_def)
qed

lemma startswith_nonempty:
  "startswith line (lit '':ACK'') \<or> startswith line (lit '':NACK'') \<Longrightarrow> line \<noteq> []"
  by (auto simp: startswith_def lit_def)

lemma run_line:
  "loop_cond s \<Longrightarrow> read_line r = Inr line \<Longrightarrow>
     run s (Readline r # rest) = prepend (handle_line line) (run s rest)"
  by simp


lemma handle_line_ACK:
  "startswith line (lit '':ACK'') \<Longrightarrow>
     handle_line line = [Print (lit ''Recebido: '' @ line), Emit (Response_received line)]"
  using startswith_nonempty [of line] by (simp add: handle_line_def)

lemma handle_line_NACK:
  "startswith line (lit '':NACK'') \<Longrightarrow>
     handle_line line = [Print (lit ''Recebido: '' @ line), Emit (Error_received line)]"
  using startswith_nonempty [of line] startswith_NACK_not_ACK [of line]
  by (simp add: handle_line_def)

lemma read_line_ack:
  "read_line (Read_returns (blit '':ACK:1550.000'' @ [13, 10])) = Inr (lit '':ACK:1550.000'')"
  by (simp add: read_line_def blit_def utf8_decode_def push_def strip_def is_space_def lit_def)

lemma read_line_nack:
  "read_line (Read_returns (blit '':NACK:OUT_OF_RANGE'' @ [10])) = Inr (lit '':NACK:OUT_OF_RANGE'')"
  by (simp add: read_line_def blit_def utf8_decode_def push_def strip_def is_space_def lit_def)

lemma run_open0_Nil: "run open0 [] = (Blocked, open0, [])"
  using loop_cond_open0 by simp



lemma read_line_hello: "read_line (Read_returns (blit ''hello'' @ [10])) = Inr (lit ''hello'')"
  by (simp add: read_line_def blit_def utf8_decode_def push_def strip_def is_space_def lit_def)

lemma disconnect_state:
  "state_of (disconnect s)
     = s\<lparr>is_running := False, serial_port := map_option close (serial_port s)\<rparr>"
  by (cases "serial_port s") (auto simp: disconnect_def state_of_def Let_def port_open_def close_def)

lemma disconnect_open0: "state_of (disconnect open0) = closed0"
  by (simp add: disconnect_state open0_eq closed0_def close_def)











































lemma signals_Print: "signals (Print x # effs) = signals effs"
  by simp


lemma effects_of_prepend: "effects_of (prepend effs r) = effs @ effects_of r"
  by (simp add: prepend_def effects_of_def)









section \<open>The session from open to close\<close>



lemma run_not_raised: "status_of (run s env) \<noteq> Raised e"
proof (induction env arbitrary: s)
  case Nil
  then show ?case by (simp add: status_of_def)
next
  case (Cons ev rest)
  then show ?case
    by (auto simp: status_of_def prepend_def split: loop_event.splits sum.splits)
qed




lemma connect_Opened: "connect s Opened env = run (opened s) env"
proof (cases "status_of (run (opened s) env)")
  case (Raised e)
  with run_not_raised [of "opened s" env e] show ?thesis by simp
qed (simp_all add: connect_def Let_def)

lemma connect_open_caught:
  "is_SerialException e \<Longrightarrow>
     connect s (Open_raises e) env
       = (Returned, s,
          [Emit (Error_received (lit ''Falha ao abrir porta '' @ port_name s @ lit '': '' @ msg e))])"
  by (simp add: connect_def connect_handler_def)

lemma connect_open_propagates:
  "\<not> is_SerialException e \<Longrightarrow> connect s (Open_raises e) env = (Raised e, s, [])"
  by (simp add: connect_def connect_handler_def)

lemma is_SerialException_no_port: "is_SerialException no_port"
  by (simp add: no_port_def is_SerialException_def)



lemma read_line_garbage:
  "read_line (Read_returns [0xFF, 10])
     = Inl (decode_error 255 0 1 ''invalid start byte'')"
  by (simp add: read_line_def utf8_decode_def)

lemma connect_ack_then_disconnect:
  "connect session0 Opened
      [Readline (Read_returns (blit '':ACK:1550.000'' @ [13, 10])), Caller_disconnects]
    = (Returned, closed0,
       [Print (lit ''Recebido: '' @ lit '':ACK:1550.000''),
        Emit (Response_received (lit '':ACK:1550.000'')), Emit Port_closed])"
proof -
  have "\<not> loop_cond closed0" by (simp add: closed0_def loop_cond_def)
  with loop_cond_open0
  have 1: "run open0 [Caller_disconnects] = (Returned, closed0, [Emit Port_closed])"
    by (simp add: disconnect_open0)
  have a: "startswith (lit '':ACK:1550.000'') (lit '':ACK'')"
    by (simp add: startswith_def lit_def)
  have "connect session0 Opened
      [Readline (Read_returns (blit '':ACK:1550.000'' @ [13, 10])), Caller_disconnects]
    = prepend (handle_line (lit '':ACK:1550.000'')) (run open0 [Caller_disconnects])"
    unfolding connect_Opened open0_def [symmetric]
    by (rule run_line [OF loop_cond_open0 read_line_ack])
  then show ?thesis
    unfolding 1 handle_line_ACK [OF a]
    by (simp add: prepend_def status_of_def state_of_def effects_of_def)
qed




section \<open>\<open>disconnect\<close> and \<open>send_command\<close>\<close>

lemma disconnect_result: "disconnect s = (Returned, state_of (disconnect s), [])"
  by (simp add: disconnect_def state_of_def Let_def)

lemma disconnect_twice:
  "state_of (disconnect (state_of (disconnect s))) = state_of (disconnect s)"
  by (cases "serial_port s") (simp_all add: disconnect_state close_def)

lemma disconnect_funpow: "((state_of \<circ> disconnect) ^^ Suc n) s = state_of (disconnect s)"
  by (induction n) (simp_all add: disconnect_twice)

text \<open>
  C7. \<open>disconnect\<close> returns without emitting anything, \<open>port_closed\<close> included. It
  leaves the running flag false and the port, if there is one, closed, and changes
  nothing else; calling it again, any number of times, gives the state that one call
  gives.
\<close>

theorem disconnect_idempotent:
  "disconnect s
     = (Returned,
        s\<lparr>is_running := False, serial_port := map_option close (serial_port s)\<rparr>, [])
   \<and> \<not> is_running (state_of (disconnect s))
   \<and> \<not> port_open (state_of (disconnect s))
   \<and> disconnect (state_of (disconnect s)) = disconnect s
   \<and> ((state_of \<circ> disconnect) ^^ Suc n) s = state_of (disconnect s)"
proof -
  have r: "disconnect s
     = (Returned,
        s\<lparr>is_running := False, serial_port := map_option close (serial_port s)\<rparr>, [])"
    unfolding disconnect_state [symmetric] by (rule disconnect_result)
  have a: "\<not> is_running (state_of (disconnect s))"
    by (simp add: disconnect_state)
  have b: "\<not> port_open (state_of (disconnect s))"
    by (cases "serial_port s") (simp_all add: disconnect_state port_open_def close_def)
  have "disconnect (state_of (disconnect s))
          = (Returned, state_of (disconnect (state_of (disconnect s))), [])"
    by (rule disconnect_result)
  also have "\<dots> = (Returned, state_of (disconnect s), [])"
    by (simp only: disconnect_twice)
  also have "\<dots> = disconnect s"
    by (rule disconnect_result [symmetric])
  finally have c: "disconnect (state_of (disconnect s)) = disconnect s" .
  have d: "((state_of \<circ> disconnect) ^^ Suc n) s = state_of (disconnect s)"
    by (rule disconnect_funpow)
  from r a b c d show ?thesis by blast
qed

theorem disconnect_idempotent_witness:
  "disconnect open0 = (Returned, closed0, [])
   \<and> disconnect closed0 = (Returned, closed0, [])
   \<and> ((state_of \<circ> disconnect) ^^ Suc 2) open0 = closed0
   \<and> disconnect session0 = (Returned, session0\<lparr>is_running := False\<rparr>, [])"
proof -
  note w = disconnect_idempotent [of open0 2]
  have c: "state_of (disconnect open0) = closed0" by (rule disconnect_open0)
  have e: "open0\<lparr>is_running := False, serial_port := map_option close (serial_port open0)\<rparr>
             = closed0"
    by (simp add: open0_eq closed0_def close_def)
  from w have 1: "disconnect open0 = (Returned, closed0, [])"
    unfolding e by blast
  from w have "disconnect (state_of (disconnect open0)) = disconnect open0" by blast
  then have "disconnect closed0 = disconnect open0"
    unfolding c .
  then have 2: "disconnect closed0 = (Returned, closed0, [])"
    unfolding 1 .
  from w have "((state_of \<circ> disconnect) ^^ Suc 2) open0 = state_of (disconnect open0)"
    by blast
  then have 3: "((state_of \<circ> disconnect) ^^ Suc 2) open0 = closed0"
    unfolding c .
  have e0: "session0\<lparr>is_running := False,
                      serial_port := map_option close (serial_port session0)\<rparr>
              = session0\<lparr>is_running := False\<rparr>"
    by (simp add: session0_def init_def)
  from disconnect_idempotent [of session0 0]
  have 4: "disconnect session0 = (Returned, session0\<lparr>is_running := False\<rparr>, [])"
    unfolding e0 by blast
  from 1 2 3 4 show ?thesis by blast
qed

text \<open>
  C9. When the port is not open, because there is none or because it has been closed,
  \<open>send_command\<close> returns with the object unchanged, having written, emitted and printed
  nothing, whatever the command is.
\<close>

theorem send_command_not_open_noop:
  "\<not> port_open s \<Longrightarrow> send_command s c w = (Returned, s, [])"
  by (simp add: send_command_def)

theorem send_command_not_open_noop_witness:
  "\<not> port_open session0 \<and> send_command session0 (lit ''iden?'') Write_ok = (Returned, session0, [])
   \<and> \<not> port_open closed0 \<and> send_command closed0 [0xD800] Write_ok = (Returned, closed0, [])"
proof -
  have c: "\<not> port_open closed0" by (simp add: closed0_def port_open_def)
  from send_command_not_open_noop [OF not_port_open_session0]
    send_command_not_open_noop [OF c] not_port_open_session0 c
  show ?thesis by blast
qed

lemma utf8_encode_from_error:
  "utf8_encode_from pos s = Inl e \<Longrightarrow> cls e = UnicodeEncodeError"
proof (induction s arbitrary: pos)
  case Nil
  then show ?case by simp
next
  case (Cons cp rest)
  show ?case
  proof (cases "is_surrogate cp")
    case True
    with Cons.prems show ?thesis by (auto simp: encode_error_def)
  next
    case False
    show ?thesis
    proof (cases "utf8_encode_from (Suc pos) rest")
      case (Inl e')
      with False Cons.prems have "e' = e" by simp
      with Inl Cons.IH show ?thesis by blast
    next
      case (Inr bs)
      with False Cons.prems show ?thesis by simp
    qed
  qed
qed

lemma utf8_encode_error: "utf8_encode s = Inl e \<Longrightarrow> \<not> is_SerialException e"
  by (auto simp: utf8_encode_def is_SerialException_def dest: utf8_encode_from_error)

lemma send_command_ok:
  "port_open s \<Longrightarrow> utf8_encode (lit '':'' @ c @ [10]) = Inr data \<Longrightarrow>
     send_command s c Write_ok
       = (Returned, s,
          [Port_write data, Print (lit ''Enviado: '' @ strip (lit '':'' @ c @ [10]))])"
  by (simp add: send_command_def)

lemma send_command_write_caught:
  "port_open s \<Longrightarrow> utf8_encode (lit '':'' @ c @ [10]) = Inr data \<Longrightarrow> is_SerialException e \<Longrightarrow>
     send_command s c (Write_raises e)
       = (Returned, s,
          [Port_write data, Emit (Error_received (lit ''Erro ao enviar comando: '' @ msg e))])"
  by (simp add: send_command_def send_handler_def)

lemma send_command_write_propagates:
  "port_open s \<Longrightarrow> utf8_encode (lit '':'' @ c @ [10]) = Inr data \<Longrightarrow> \<not> is_SerialException e \<Longrightarrow>
     send_command s c (Write_raises e) = (Raised e, s, [Port_write data])"
  by (simp add: send_command_def send_handler_def)

lemma send_command_encode_propagates:
  "port_open s \<Longrightarrow> utf8_encode (lit '':'' @ c @ [10]) = Inl e \<Longrightarrow>
     send_command s c w = (Raised e, s, [])"
  using utf8_encode_error [of "lit '':'' @ c @ [10]" e]
  by (simp add: send_command_def send_handler_def)

lemma encode_iden: "utf8_encode (lit '':'' @ lit ''iden?'' @ [10]) = Inr (blit '':iden?'' @ [10])"
  by (simp add: utf8_encode_def lit_def blit_def encode_cp_def is_surrogate_def)

text \<open>
  C2. When the port is open and the framed command \<open>':' + c + '\n'\<close> has a UTF-8
  encoding, \<open>send_command\<close> calls the port's \<open>write\<close> once, with exactly that encoding,
  whether the write then succeeds or raises; when it succeeds nothing else happens but
  the print, and the object is unchanged.
\<close>

theorem send_command_wire_bytes:
  assumes "port_open s" and "utf8_encode (lit '':'' @ c @ [10]) = Inr data"
  shows "writes (effects_of (send_command s c w)) = [data]
     \<and> send_command s c Write_ok
         = (Returned, s,
            [Port_write data, Print (lit ''Enviado: '' @ strip (lit '':'' @ c @ [10]))])"
proof (cases w)
  case Write_ok
  with assms show ?thesis by (simp add: send_command_ok effects_of_def)
next
  case (Write_raises e)
  with assms show ?thesis
    by (cases "is_SerialException e")
      (simp_all add: send_command_ok send_command_write_caught send_command_write_propagates
        effects_of_def)
qed

theorem send_command_wire_bytes_witness:
  "port_open (state_of (connect session0 Opened []))
   \<and> utf8_encode (lit '':'' @ lit ''iden?'' @ [10]) = Inr (blit '':iden?'' @ [10])
   \<and> writes (effects_of (send_command (state_of (connect session0 Opened [])) (lit ''iden?'') Write_ok))
       = [blit '':iden?'' @ [10]]
   \<and> blit '':iden?'' @ [10] = [0x3A, 0x69, 0x64, 0x65, 0x6E, 0x3F, 0x0A]"
proof -
  have s: "state_of (connect session0 Opened []) = open0"
    by (simp add: connect_Opened open0_def [symmetric] run_open0_Nil state_of_def)
  have b: "blit '':iden?'' @ [10] = [0x3A, 0x69, 0x64, 0x65, 0x6E, 0x3F, 0x0A]"
    by (simp add: blit_def)
  from send_command_wire_bytes [OF port_open_open0 encode_iden, of Write_ok]
  have "writes (effects_of (send_command open0 (lit ''iden?'') Write_ok)) = [blit '':iden?'' @ [10]]"
    by blast
  with port_open_open0 encode_iden b show ?thesis unfolding s by blast
qed



section \<open>Faults and the channel they arrive on\<close>

lemma not_is_SerialException_bad_baudrate: "\<not> is_SerialException bad_baudrate"
  by (simp add: bad_baudrate_def is_SerialException_def)

lemma is_SerialException_io_error: "is_SerialException io_error"
  by (simp add: io_error_def is_SerialException_def)

lemma run_read_fails_signals:
  "loop_cond s \<Longrightarrow> read_line r = Inl e \<Longrightarrow> \<not> is_TypeError e \<Longrightarrow>
     signals (effects_of (run s (Readline r # rest)))
       = [Error_received (lit ''Erro de leitura: '' @ msg e), Port_closed]"
  by (simp add: read_handler_def effects_of_def)

text \<open>
  Against C5 as the specification words it, for every fault. An open that fails with an
  exception that is not a \<open>serial.SerialException\<close>:
  pySerial's constructor raises \<open>ValueError\<close> for a baud rate out of range, and the
  exception leaves \<open>connect\<close> with no signal emitted.
\<close>

theorem connect_propagates_ValueError:
  "connect (init (lit ''COM3'') (- 1)) (Open_raises bad_baudrate) []
     = (Raised bad_baudrate, init (lit ''COM3'') (- 1), [])"
  by (rule connect_open_propagates [OF not_is_SerialException_bad_baudrate])

text \<open>
  C5, as the code has it. A \<open>serial.SerialException\<close> raised by the open in \<open>connect\<close>
  or by the write in \<open>send_command\<close> is caught and becomes one failure signal; an
  exception of another class raised there, or by the encoding of the command, leaves
  the operation. No exception leaves the read loop, nor \<open>connect\<close> once the port is
  open, and a read that fails with anything but \<open>TypeError\<close> becomes one failure
  signal.
\<close>

theorem faults_caught_by_class:
  "(is_SerialException e \<longrightarrow>
      connect s (Open_raises e) env
        = (Returned, s,
           [Emit (Error_received
                    (lit ''Falha ao abrir porta '' @ port_name s @ lit '': '' @ msg e))]))
   \<and> (\<not> is_SerialException e \<longrightarrow> connect s (Open_raises e) env = (Raised e, s, []))
   \<and> status_of (connect s Opened env) \<noteq> Raised e
   \<and> status_of (run s env) \<noteq> Raised e
   \<and> (port_open s \<and> utf8_encode (lit '':'' @ c @ [10]) = Inr data \<and> is_SerialException e \<longrightarrow>
        send_command s c (Write_raises e)
          = (Returned, s,
             [Port_write data,
              Emit (Error_received (lit ''Erro ao enviar comando: '' @ msg e))]))
   \<and> (port_open s \<and> utf8_encode (lit '':'' @ c @ [10]) = Inr data \<and> \<not> is_SerialException e \<longrightarrow>
        send_command s c (Write_raises e) = (Raised e, s, [Port_write data]))
   \<and> (port_open s \<and> utf8_encode (lit '':'' @ c @ [10]) = Inl e \<longrightarrow>
        send_command s c w = (Raised e, s, []))
   \<and> (loop_cond s \<and> read_line r = Inl e \<and> \<not> is_TypeError e \<longrightarrow>
        signals (effects_of (run s (Readline r # rest)))
          = [Error_received (lit ''Erro de leitura: '' @ msg e), Port_closed])"
  using connect_open_caught [of e s env] connect_open_propagates [of e s env]
    run_not_raised [of "opened s" env e] run_not_raised [of s env e]
    send_command_write_caught [of s c data e] send_command_write_propagates [of s c data e]
    send_command_encode_propagates [of s c e w] run_read_fails_signals [of s r e rest]
  unfolding connect_Opened by blast

lemma encode_surrogate:
  "utf8_encode (lit '':'' @ [0xD800] @ [10]) = Inl (encode_error 0xD800 1 2)"
  by (simp add: utf8_encode_def lit_def is_surrogate_def numeral_2_eq_2)

theorem faults_caught_by_class_witness:
  "is_SerialException no_port
   \<and> connect session0 (Open_raises no_port) []
       = (Returned, session0,
          [Emit (Error_received
                   (lit ''Falha ao abrir porta '' @ port_name session0 @ lit '': '' @ msg no_port))])
   \<and> \<not> is_SerialException bad_baudrate
   \<and> connect session0 (Open_raises bad_baudrate) [] = (Raised bad_baudrate, session0, [])
   \<and> port_open open0
   \<and> utf8_encode (lit '':'' @ lit ''iden?'' @ [10]) = Inr (blit '':iden?'' @ [10])
   \<and> send_command open0 (lit ''iden?'') (Write_raises no_port)
       = (Returned, open0,
          [Port_write (blit '':iden?'' @ [10]),
           Emit (Error_received (lit ''Erro ao enviar comando: '' @ msg no_port))])
   \<and> send_command open0 (lit ''iden?'') (Write_raises bad_baudrate)
       = (Raised bad_baudrate, open0, [Port_write (blit '':iden?'' @ [10])])
   \<and> utf8_encode (lit '':'' @ [0xD800] @ [10]) = Inl (encode_error 0xD800 1 2)
   \<and> send_command open0 [0xD800] Write_ok = (Raised (encode_error 0xD800 1 2), open0, [])
   \<and> loop_cond open0
   \<and> read_line (Read_returns [0xFF, 10]) = Inl (decode_error 255 0 1 ''invalid start byte'')
   \<and> \<not> is_TypeError (decode_error 255 0 1 ''invalid start byte'')
   \<and> signals (effects_of (run open0 [Readline (Read_returns [0xFF, 10])]))
       = [Error_received
            (lit ''Erro de leitura: '' @ msg (decode_error 255 0 1 ''invalid start byte'')),
          Port_closed]"
proof -
  have t: "\<not> is_TypeError (decode_error 255 0 1 ''invalid start byte'')"
    by (simp add: is_TypeError_def decode_error_def)
  note n = is_SerialException_no_port and b = not_is_SerialException_bad_baudrate
  from faults_caught_by_class [where e = no_port and s = session0 and env = "[]"] n
  have 1: "connect session0 (Open_raises no_port) []
       = (Returned, session0,
          [Emit (Error_received
                   (lit ''Falha ao abrir porta '' @ port_name session0 @ lit '': '' @ msg no_port))])"
    by blast
  from faults_caught_by_class [where e = bad_baudrate and s = session0 and env = "[]"] b
  have 2: "connect session0 (Open_raises bad_baudrate) [] = (Raised bad_baudrate, session0, [])"
    by blast
  from faults_caught_by_class [where e = no_port and s = open0 and c = "lit ''iden?''"
      and data = "blit '':iden?'' @ [10]"]
    n port_open_open0 encode_iden
  have 3: "send_command open0 (lit ''iden?'') (Write_raises no_port)
       = (Returned, open0,
          [Port_write (blit '':iden?'' @ [10]),
           Emit (Error_received (lit ''Erro ao enviar comando: '' @ msg no_port))])"
    by blast
  from faults_caught_by_class [where e = bad_baudrate and s = open0 and c = "lit ''iden?''"
      and data = "blit '':iden?'' @ [10]"]
    b port_open_open0 encode_iden
  have 4: "send_command open0 (lit ''iden?'') (Write_raises bad_baudrate)
       = (Raised bad_baudrate, open0, [Port_write (blit '':iden?'' @ [10])])"
    by blast
  from faults_caught_by_class [where e = "encode_error 0xD800 1 2" and s = open0
      and c = "[0xD800]" and w = Write_ok]
    port_open_open0 encode_surrogate
  have 5: "send_command open0 [0xD800] Write_ok = (Raised (encode_error 0xD800 1 2), open0, [])"
    by blast
  from faults_caught_by_class [where e = "decode_error 255 0 1 ''invalid start byte''"
      and s = open0 and r = "Read_returns [0xFF, 10]" and rest = "[]"]
    loop_cond_open0 read_line_garbage t
  have 6: "signals (effects_of (run open0 [Readline (Read_returns [0xFF, 10])]))
       = [Error_received
            (lit ''Erro de leitura: '' @ msg (decode_error 255 0 1 ''invalid start byte'')),
          Port_closed]"
    by blast
  from n b port_open_open0 encode_iden encode_surrogate loop_cond_open0 read_line_garbage t
    1 2 3 4 5 6
  show ?thesis by blast
qed

text \<open>
  C10. The failure of an open, of a write and of a read each arrive as one emission of
  \<open>error_received\<close> with a \<open>str\<close>, which is also the signal that carries a \<open>:NACK\<close>
  line: the four emissions are on one channel.
\<close>

theorem failures_share_error_channel:
  "(is_SerialException e \<longrightarrow>
      signals (effects_of (connect s (Open_raises e) env))
        = [Error_received (lit ''Falha ao abrir porta '' @ port_name s @ lit '': '' @ msg e)])
   \<and> (port_open s \<and> utf8_encode (lit '':'' @ c @ [10]) = Inr data \<and> is_SerialException e \<longrightarrow>
        signals (effects_of (send_command s c (Write_raises e)))
          = [Error_received (lit ''Erro ao enviar comando: '' @ msg e)])
   \<and> (loop_cond s \<and> read_line r = Inl e \<and> \<not> is_TypeError e \<longrightarrow>
        signals (effects_of (run s (Readline r # rest)))
          = [Error_received (lit ''Erro de leitura: '' @ msg e), Port_closed])
   \<and> (loop_cond s \<and> read_line r = Inr line \<and> startswith line (lit '':NACK'') \<longrightarrow>
        signals (effects_of (run s (Readline r # rest)))
          = Error_received line # signals (effects_of (run s rest)))
   \<and> channel_of (Error_received line) = Error_channel
   \<and> channel_of (Error_received (lit ''Falha ao abrir porta '' @ port_name s @ lit '': '' @ msg e))
       = channel_of (Error_received line)
   \<and> channel_of (Error_received (lit ''Erro ao enviar comando: '' @ msg e))
       = channel_of (Error_received line)
   \<and> channel_of (Error_received (lit ''Erro de leitura: '' @ msg e))
       = channel_of (Error_received line)"
proof -
  have "signals (effects_of (run s (Readline r # rest)))
          = Error_received line # signals (effects_of (run s rest))"
    if "loop_cond s" "read_line r = Inr line" "startswith line (lit '':NACK'')"
    using that by (simp add: run_line handle_line_NACK effects_of_prepend)
  moreover have "signals (effects_of (connect s (Open_raises e) env))
        = [Error_received (lit ''Falha ao abrir porta '' @ port_name s @ lit '': '' @ msg e)]"
    if "is_SerialException e"
    using that by (simp add: connect_open_caught effects_of_def)
  moreover have "signals (effects_of (send_command s c (Write_raises e)))
          = [Error_received (lit ''Erro ao enviar comando: '' @ msg e)]"
    if "port_open s" "utf8_encode (lit '':'' @ c @ [10]) = Inr data" "is_SerialException e"
    using that by (simp add: send_command_write_caught effects_of_def)
  ultimately show ?thesis
    using run_read_fails_signals [of s r e rest] by simp
qed

theorem failures_share_error_channel_witness:
  "is_SerialException io_error
   \<and> signals (effects_of (connect session0 (Open_raises io_error) []))
       = [Error_received (lit ''Falha ao abrir porta '' @ port_name session0 @ lit '': '' @ msg io_error)]
   \<and> port_open open0 \<and> utf8_encode (lit '':'' @ lit ''iden?'' @ [10]) = Inr (blit '':iden?'' @ [10])
   \<and> signals (effects_of (send_command open0 (lit ''iden?'') (Write_raises io_error)))
       = [Error_received (lit ''Erro ao enviar comando: '' @ msg io_error)]
   \<and> loop_cond open0 \<and> read_line (Read_raises io_error) = Inl io_error \<and> \<not> is_TypeError io_error
   \<and> signals (effects_of (run open0 [Readline (Read_raises io_error)]))
       = [Error_received (lit ''Erro de leitura: '' @ msg io_error), Port_closed]
   \<and> read_line (Read_returns (blit '':NACK:OUT_OF_RANGE'' @ [10])) = Inr (lit '':NACK:OUT_OF_RANGE'')
   \<and> startswith (lit '':NACK:OUT_OF_RANGE'') (lit '':NACK'')
   \<and> signals (effects_of (run open0 [Readline (Read_returns (blit '':NACK:OUT_OF_RANGE'' @ [10]))]))
       = [Error_received (lit '':NACK:OUT_OF_RANGE'')]"
proof -
  have i: "read_line (Read_raises io_error) = Inl io_error" "\<not> is_TypeError io_error"
    by (simp_all add: read_line_def is_TypeError_def io_error_def)
  have n: "startswith (lit '':NACK:OUT_OF_RANGE'') (lit '':NACK'')"
    by (simp add: startswith_def lit_def)
  have z: "signals (effects_of (run open0 [])) = []"
    by (simp only: run_open0_Nil) (simp add: effects_of_def)
  note s = is_SerialException_io_error
  note w1 = failures_share_error_channel [where e = io_error and s = session0 and env = "[]"]
  note w2 = failures_share_error_channel [where e = io_error and s = open0
      and c = "lit ''iden?''" and data = "blit '':iden?'' @ [10]"
      and r = "Read_raises io_error" and rest = "[]"]
  note w3 = failures_share_error_channel [where s = open0
      and r = "Read_returns (blit '':NACK:OUT_OF_RANGE'' @ [10])" and rest = "[]"
      and line = "lit '':NACK:OUT_OF_RANGE''"]
  from w1 s have 1: "signals (effects_of (connect session0 (Open_raises io_error) []))
       = [Error_received (lit ''Falha ao abrir porta '' @ port_name session0 @ lit '': '' @ msg io_error)]"
    by blast
  from w2 s port_open_open0 encode_iden
  have 2: "signals (effects_of (send_command open0 (lit ''iden?'') (Write_raises io_error)))
       = [Error_received (lit ''Erro ao enviar comando: '' @ msg io_error)]"
    by blast
  from w2 loop_cond_open0 i
  have 3: "signals (effects_of (run open0 [Readline (Read_raises io_error)]))
       = [Error_received (lit ''Erro de leitura: '' @ msg io_error), Port_closed]"
    by blast
  from w3 loop_cond_open0 read_line_nack n
  have "signals (effects_of (run open0 [Readline (Read_returns (blit '':NACK:OUT_OF_RANGE'' @ [10]))]))
       = Error_received (lit '':NACK:OUT_OF_RANGE'') # signals (effects_of (run open0 []))"
    by blast
  then have 4: "signals (effects_of (run open0 [Readline (Read_returns (blit '':NACK:OUT_OF_RANGE'' @ [10]))]))
       = [Error_received (lit '':NACK:OUT_OF_RANGE'')]"
    unfolding z .
  from s port_open_open0 encode_iden loop_cond_open0 i read_line_nack n 1 2 3 4
  show ?thesis by blast
qed

section \<open>The port enumerator\<close>

lemma probe_ports_filter:
  "probe_ports pr ports acc = Inr res \<Longrightarrow> res = acc @ filter (\<lambda>p. pr p = Probe_ok) ports"
proof (induction ports arbitrary: acc)
  case Nil
  then show ?case by simp
next
  case (Cons a ports)
  show ?case
  proof (cases "pr a")
    case Probe_ok
    with Cons.prems have "probe_ports pr ports (acc @ [a]) = Inr res" by simp
    from Cons.IH [OF this] Probe_ok show ?thesis by simp
  next
    case (Probe_open_raises e)
    with Cons.prems have "probe_ports pr ports acc = Inr res"
      by (simp split: if_splits)
    from Cons.IH [OF this] Probe_open_raises show ?thesis by simp
  next
    case (Probe_close_raises e)
    with Cons.prems have "probe_ports pr ports acc = Inr res"
      by (simp split: if_splits)
    from Cons.IH [OF this] Probe_close_raises show ?thesis by simp
  qed
qed

lemma probe_ports_total:
  "\<forall>p \<in> set ports. probe_caught (pr p) \<Longrightarrow>
     probe_ports pr ports acc = Inr (acc @ filter (\<lambda>p. pr p = Probe_ok) ports)"
proof (induction ports arbitrary: acc)
  case Nil
  then show ?case by simp
next
  case (Cons a ports)
  then have ih: "probe_ports pr ports acc' = Inr (acc' @ filter (\<lambda>p. pr p = Probe_ok) ports)"
    for acc' by simp
  from Cons.prems have "probe_caught (pr a)" by simp
  then show ?case
    by (cases "pr a") (simp_all add: probe_caught_def ih)
qed

lemma candidates_total: "recognized (platform h) \<Longrightarrow> \<exists>ports. candidates h = Inr ports"
  by (auto simp: candidates_def recognized_def)

lemma candidates_unrecognized:
  "\<not> recognized (platform h) \<Longrightarrow>
     candidates h = Inl (Exn OSError (lit ''Unsupported platform''))"
  by (simp add: candidates_def recognized_def)

lemma candidates_recognized: "candidates h = Inr ports \<Longrightarrow> recognized (platform h)"
  by (auto simp: candidates_def recognized_def split: if_splits)

lemma serial_ports_host0: "serial_ports host0 = Inr [lit ''/dev/ttyUSB0'']"
  by (simp add: serial_ports_def candidates_def host0_def startswith_def lit_def
      is_OSError_def is_SerialException_def)

lemma freebsd_unrecognized: "\<not> recognized (lit ''freebsd13'')"
  by (simp add: recognized_def startswith_def lit_def)

text \<open>
  C8. When \<open>serial_ports\<close> returns, the platform is a recognized one and the result is
  the list of candidates, in their order, restricted to those whose probe opened and
  closed the port; so every port in the result was opened by its probe, and a candidate
  whose open failed is not in it. It does return on a recognized platform when the
  probes raise nothing but what the handler catches. On a platform that is not
  recognized the function raises \<open>EnvironmentError('Unsupported platform')\<close>.
\<close>

theorem serial_ports_only_opened:
  "(serial_ports h = Inr res \<longrightarrow>
      recognized (platform h)
      \<and> (\<exists>ports. candidates h = Inr ports \<and> res = filter (\<lambda>p. probe h p = Probe_ok) ports)
      \<and> (\<forall>p \<in> set res. probe h p = Probe_ok))
   \<and> (recognized (platform h) \<and> (\<forall>p. probe_caught (probe h p)) \<longrightarrow>
      (\<exists>ports. candidates h = Inr ports
         \<and> serial_ports h = Inr (filter (\<lambda>p. probe h p = Probe_ok) ports)))
   \<and> (\<not> recognized (platform h) \<longrightarrow>
      serial_ports h = Inl (Exn OSError (lit ''Unsupported platform'')))"
proof (intro conjI impI)
  assume r: "serial_ports h = Inr res"
  then obtain ports where c: "candidates h = Inr ports"
    and p: "probe_ports (probe h) ports [] = Inr res"
    by (cases "candidates h") (simp_all add: serial_ports_def)
  from c show "recognized (platform h)" by (rule candidates_recognized)
  from probe_ports_filter [OF p] have f: "res = filter (\<lambda>p. probe h p = Probe_ok) ports"
    by simp
  with c show "\<exists>ports. candidates h = Inr ports \<and> res = filter (\<lambda>p. probe h p = Probe_ok) ports"
    by blast
  from f show "\<forall>p \<in> set res. probe h p = Probe_ok" by simp
next
  assume a: "recognized (platform h) \<and> (\<forall>p. probe_caught (probe h p))"
  then obtain ports where c: "candidates h = Inr ports"
    using candidates_total by blast
  from a have "\<forall>p \<in> set ports. probe_caught (probe h p)" by simp
  from probe_ports_total [OF this, of "[]"] c
  have "serial_ports h = Inr (filter (\<lambda>p. probe h p = Probe_ok) ports)"
    by (simp add: serial_ports_def)
  with c show "\<exists>ports. candidates h = Inr ports
      \<and> serial_ports h = Inr (filter (\<lambda>p. probe h p = Probe_ok) ports)"
    by blast
next
  assume "\<not> recognized (platform h)"
  then show "serial_ports h = Inl (Exn OSError (lit ''Unsupported platform''))"
    by (simp add: serial_ports_def candidates_unrecognized)
qed

lemma probe_caught_host0: "probe_caught (probe host0 p)"
  by (simp add: host0_def probe_caught_def is_OSError_def is_SerialException_def)

theorem serial_ports_only_opened_witness:
  "serial_ports host0 = Inr [lit ''/dev/ttyUSB0'']
   \<and> recognized (platform host0)
   \<and> (\<forall>p. probe_caught (probe host0 p))
   \<and> probe host0 (lit ''/dev/ttyUSB0'') = Probe_ok
   \<and> probe host0 (lit ''/dev/ttyS0'') \<noteq> Probe_ok
   \<and> \<not> recognized (platform (host0\<lparr>platform := lit ''freebsd13''\<rparr>))
   \<and> serial_ports (host0\<lparr>platform := lit ''freebsd13''\<rparr>)
       = Inl (Exn OSError (lit ''Unsupported platform''))"
proof -
  note w1 = serial_ports_only_opened [of host0 "[lit ''/dev/ttyUSB0'']"]
  note w2 = serial_ports_only_opened [of "host0\<lparr>platform := lit ''freebsd13''\<rparr>" "[]"]
  have u: "\<not> recognized (platform (host0\<lparr>platform := lit ''freebsd13''\<rparr>))"
    using freebsd_unrecognized by simp
  from w1 serial_ports_host0 have r: "recognized (platform host0)" by blast
  from w1 serial_ports_host0 have "\<forall>p \<in> set [lit ''/dev/ttyUSB0'']. probe host0 p = Probe_ok"
    by blast
  then have o: "probe host0 (lit ''/dev/ttyUSB0'') = Probe_ok" by simp
  have f: "probe host0 (lit ''/dev/ttyS0'') \<noteq> Probe_ok"
    by (simp add: host0_def lit_def)
  from w2 u have e: "serial_ports (host0\<lparr>platform := lit ''freebsd13''\<rparr>)
       = Inl (Exn OSError (lit ''Unsupported platform''))"
    by blast
  from serial_ports_host0 r probe_caught_host0 o f u e show ?thesis by blast
qed

end
